theory Spec2Isabelle
  imports Complex_Main
begin

section \<open>pyPSQC: quality control of prostate segmentations\<close>

text \<open>
  A shallow embedding of \<^verbatim>\<open>src/pyPSQC/utils.py\<close>, \<^verbatim>\<open>feature_extraction.py\<close> and
  \<^verbatim>\<open>quality_prediction.py\<close>. An exception is a value \<open>Inl e\<close> of a sum type; a
  dictionary is an association list in insertion order (Python dictionaries iterate in
  insertion order and hold each key once).

  A finite number of Python or NumPy, whatever its type, is modelled by the real number
  it denotes, and comparisons of such numbers are exact. NaN and the infinities denote
  no real and are outside the model. What an arithmetic operation of NumPy returns
  depends on the dtype of its operands (64-bit integer arithmetic wraps around, double
  arithmetic rounds), and NumPy is not part of the package: these operations are
  parameters of the model.
\<close>

subsection \<open>Exceptions\<close>

datatype py_error =
  ValueError string
  | IndexError
  | TypeError
  | FileNotFoundError
  | ExtractorError string

subsection \<open>Scoring: \<^verbatim>\<open>calculate_quality_score\<close>, \<^verbatim>\<open>classify_quality\<close>, \<^verbatim>\<open>quality_prediction\<close>\<close>

text \<open>
  The arithmetic of the scalars of scoring, in the dtype NumPy gives the predictor and
  coefficient arrays: the value of \<^verbatim>\<open>np.dot\<close> on two one-dimensional arrays of the same
  length, the sum of that value and the intercept, and \<^verbatim>\<open>round(x, ndigits)\<close> on such
  a scalar.
\<close>

record score_arith =
  dot_1d :: "real list \<Rightarrow> real list \<Rightarrow> real"
  scalar_add :: "real \<Rightarrow> real \<Rightarrow> real"
  round_ndigits :: "real \<Rightarrow> nat \<Rightarrow> real"

text \<open>
  \<^verbatim>\<open>np.dot\<close> of two one-dimensional arrays: their product when the lengths agree,
  \<^verbatim>\<open>ValueError: shapes (m,) and (n,) not aligned\<close> otherwise.
\<close>

definition np_dot :: "score_arith \<Rightarrow> real list \<Rightarrow> real list \<Rightarrow> py_error + real" where
  "np_dot ar a b =
     (if length a \<noteq> length b then Inl (ValueError ''shapes not aligned'')
      else Inr (dot_1d ar a b))"

text \<open>
  The score is one of the Python integers 0 and 100 written in the source, or a NumPy
  scalar.
\<close>

datatype py_number = PyInt int | NpScalar real

fun number_value :: "py_number \<Rightarrow> real" where
  "number_value (PyInt n) = of_int n"
| "number_value (NpScalar x) = x"

text \<open>
  Python's built-in \<^verbatim>\<open>min(a, b)\<close> and \<^verbatim>\<open>max(a, b)\<close> return the first argument unless
  the second is strictly smaller (larger).
\<close>

definition py_min :: "py_number \<Rightarrow> py_number \<Rightarrow> py_number" where
  "py_min a b = (if number_value b < number_value a then b else a)"

definition py_max :: "py_number \<Rightarrow> py_number \<Rightarrow> py_number" where
  "py_max a b = (if number_value a < number_value b then b else a)"

definition calculate_quality_score ::
  "score_arith \<Rightarrow> real list \<Rightarrow> real list \<Rightarrow> real \<Rightarrow> py_error + py_number" where
  "calculate_quality_score ar predictors coefs intercept =
     (case np_dot ar predictors coefs of
        Inl e \<Rightarrow> Inl e
      | Inr d \<Rightarrow>
          (let quality_score = NpScalar (scalar_add ar d intercept);
               capped_quality_score = py_max (PyInt 0) (py_min quality_score (PyInt 100))
           in Inr capped_quality_score))"

definition classify_quality :: "real \<Rightarrow> real \<Rightarrow> string" where
  "classify_quality quality_score quality_class_threshold =
     (if quality_score < quality_class_threshold then ''NOT Acceptable'' else ''Acceptable'')"

text \<open>\<^verbatim>\<open>round(x, ndigits)\<close> returns a Python integer as it is.\<close>

fun py_round :: "score_arith \<Rightarrow> py_number \<Rightarrow> nat \<Rightarrow> py_number" where
  "py_round ar (PyInt n) ndigits = PyInt n"
| "py_round ar (NpScalar x) ndigits = NpScalar (round_ndigits ar x ndigits)"

text \<open>
  The coefficient file \<^verbatim>\<open>model_coef.json\<close> is not part of the sources; what
  \<^verbatim>\<open>read_coef_array_from_json\<close> finds at its path is a parameter.
\<close>

datatype json_file = NoFile | BadJson | CoefArray "real list"

definition read_coef_array_from_json :: "json_file \<Rightarrow> py_error + real list" where
  "read_coef_array_from_json f =
     (case f of
        NoFile \<Rightarrow> Inl FileNotFoundError
      | BadJson \<Rightarrow> Inl (ValueError ''Unable to decode JSON data'')
      | CoefArray coef_list \<Rightarrow> Inr coef_list)"

text \<open>The intercept, as the source writes it.\<close>

definition intercept_value :: real where
  "intercept_value = - 589.6493539841075"

definition quality_prediction ::
  "score_arith \<Rightarrow> json_file \<Rightarrow> real list \<Rightarrow> real \<Rightarrow> py_error + (py_number \<times> string)" where
  "quality_prediction ar model_coef features_values quality_class_threshold =
     (case read_coef_array_from_json model_coef of
        Inl e \<Rightarrow> Inl e
      | Inr coefs \<Rightarrow>
          (case calculate_quality_score ar features_values coefs intercept_value of
             Inl e \<Rightarrow> Inl e
           | Inr s \<Rightarrow>
               (let quality_score = py_round ar s 2;
                    quality_class =
                      classify_quality (number_value quality_score) quality_class_threshold
                in Inr (quality_score, quality_class))))"

subsection \<open>Images\<close>

text \<open>
  A SimpleITK image, as far as the code reads it: the voxel array that
  \<^verbatim>\<open>sitk.GetArrayFromImage\<close> returns (indexed slice, row, column; the first index is
  the axial slice) and the geometry metadata. Images are three-dimensional, as the
  docstrings of the package say. An image intensity is the real number it denotes in
  the image's pixel type, a mask label is an integer.
\<close>

record 'a sitk_image =
  pixels :: "'a list list list"
  spacing :: "real list"
  origin :: "real list"
  direction :: "real list"

text \<open>\<^verbatim>\<open>sitk.Cast(mask, sitk.sitkUInt8)\<close>: a new image, every label reduced to 8 bits.\<close>

definition Cast_UInt8 :: "int sitk_image \<Rightarrow> int sitk_image" where
  "Cast_UInt8 m = m\<lparr>pixels := map (map (map (\<lambda>v. v mod 256))) (pixels m)\<rparr>"

definition SetDirection :: "'a sitk_image \<Rightarrow> real list \<Rightarrow> 'a sitk_image" where
  "SetDirection m d = m\<lparr>direction := d\<rparr>"

definition SetOrigin :: "'a sitk_image \<Rightarrow> real list \<Rightarrow> 'a sitk_image" where
  "SetOrigin m og = m\<lparr>origin := og\<rparr>"

text \<open>\<^verbatim>\<open>sitk.GetImageFromArray\<close>: a fresh image with the default geometry.\<close>

definition GetImageFromArray :: "'a list list list \<Rightarrow> 'a sitk_image" where
  "GetImageFromArray a =
     \<lparr>pixels = a, spacing = [1, 1, 1], origin = [0, 0, 0],
      direction = [1, 0, 0, 0, 1, 0, 0, 0, 1]\<rparr>"

text \<open>
  \<^verbatim>\<open>new.CopyInformation(src)\<close> copies origin, spacing and direction. It is only called
  on an array of the shape of \<open>src\<close> (see \<open>assign_slices_shape\<close> below), where
  SimpleITK accepts it.
\<close>

definition CopyInformation :: "'a sitk_image \<Rightarrow> 'b sitk_image \<Rightarrow> 'a sitk_image" where
  "CopyInformation new src =
     new\<lparr>spacing := spacing src, origin := origin src, direction := direction src\<rparr>"

subsection \<open>Region partitioning (the first half of \<^verbatim>\<open>extract_radiomics_features\<close>)\<close>

text \<open>
  Lines 154 to 159: the cast mask with the image's direction and origin (\<open>img\<close> and
  \<open>msk\<close> are the source's \<^verbatim>\<open>image\<close> and \<^verbatim>\<open>mask\<close>, names that HOL has taken).
\<close>

definition prepare_mask :: "real sitk_image \<Rightarrow> int sitk_image \<Rightarrow> int sitk_image" where
  "prepare_mask img msk =
     SetOrigin (SetDirection (Cast_UInt8 msk) (direction img)) (origin img)"

text \<open>Lines 162 and 163: \<^verbatim>\<open>(mask_array > 0).astype(np.uint8)\<close>.\<close>

definition binary_array :: "int list list list \<Rightarrow> int list list list" where
  "binary_array a = map (map (map (\<lambda>v. if 0 < v then 1 else 0))) a"

text \<open>\<^verbatim>\<open>a.sum(axis=(1, 2))\<close>: one sum per slice.\<close>

definition sum_axis12 :: "int list list list \<Rightarrow> int list" where
  "sum_axis12 a = map (\<lambda>s. sum_list (map sum_list s)) a"

text \<open>\<^verbatim>\<open>np.nonzero(v)[0]\<close>: the indices of the nonzero entries, ascending.\<close>

definition np_nonzero :: "int list \<Rightarrow> nat list" where
  "np_nonzero v = filter (\<lambda>i. v ! i \<noteq> 0) [0..<length v]"

definition nonzero_slices_of :: "int list list list \<Rightarrow> nat list" where
  "nonzero_slices_of mask_array = np_nonzero (sum_axis12 mask_array)"

text \<open>
  Python slicing with step 1: a negative bound counts from the end, and bounds are
  clipped to the length.
\<close>

definition slice_bound :: "int \<Rightarrow> nat \<Rightarrow> nat" where
  "slice_bound i n = (if i < 0 then nat (max 0 (int n + i)) else min (nat i) n)"

definition py_slice :: "int \<Rightarrow> int \<Rightarrow> 'a list \<Rightarrow> 'a list" where
  "py_slice lo hi xs =
     take (slice_bound hi (length xs) - slice_bound lo (length xs))
       (drop (slice_bound lo (length xs)) xs)"

definition py_slice_from :: "int \<Rightarrow> 'a list \<Rightarrow> 'a list" where
  "py_slice_from lo xs = drop (slice_bound lo (length xs)) xs"

definition math_floor :: "real \<Rightarrow> int" where
  "math_floor x = \<lfloor>x\<rfloor>"

text \<open>Lines 172 to 179: the slice indices of a region class.\<close>

definition slice_indices_of :: "string \<Rightarrow> nat list \<Rightarrow> nat list" where
  "slice_indices_of region_class nonzero_slices =
     (if region_class = ''apex'' then
        py_slice 0 (math_floor (real (length nonzero_slices) / 3)) nonzero_slices
      else if region_class = ''base'' then
        py_slice_from
          (int (length nonzero_slices) - math_floor (real (length nonzero_slices) / 3))
          nonzero_slices
      else nonzero_slices)"

definition zeros_like :: "int list list list \<Rightarrow> int list list list" where
  "zeros_like a = map (map (map (\<lambda>v. 0))) a"

text \<open>
  \<^verbatim>\<open>new[slice_indices] = src[slice_indices]\<close>, slice by slice. The indices come from
  \<open>np_nonzero\<close>, so each is in range.
\<close>

definition assign_slices :: "'a list list list \<Rightarrow> 'a list list list \<Rightarrow> nat list \<Rightarrow> 'a list list list" where
  "assign_slices new src slice_indices = fold (\<lambda>i a. a[i := src ! i]) slice_indices new"

text \<open>Lines 181 to 187: the mask of one region.\<close>

definition region_mask :: "int sitk_image \<Rightarrow> int list list list \<Rightarrow> nat list \<Rightarrow> int sitk_image" where
  "region_mask msk mask_array slice_indices =
     (let new_mask_array = assign_slices (zeros_like mask_array) mask_array slice_indices;
          new_mask = GetImageFromArray new_mask_array
      in CopyInformation new_mask msk)"

subsection \<open>Extraction settings: \<^verbatim>\<open>get_settings\<close>\<close>

record settings =
  binWidth :: real
  correctMask :: bool

definition np_sum :: "int list list list \<Rightarrow> int" where
  "np_sum a = sum_list (map (\<lambda>s. sum_list (map sum_list s)) a)"

text \<open>
  Two arrays have the same shape when they have as many slices, each slice as many rows,
  and each row as many columns.
\<close>

definition same_shape :: "'a list list list \<Rightarrow> 'b list list list \<Rightarrow> bool" where
  "same_shape a b = (map (map length) a = map (map length) b)"

definition flatten :: "'a list list list \<Rightarrow> 'a list" where
  "flatten a = concat (concat a)"

text \<open>
  \<^verbatim>\<open>image_array_in[mask_array_in != 0]\<close>: the image values at the positions where the mask
  is nonzero, in array order. NumPy raises \<^verbatim>\<open>IndexError\<close> when the boolean index and the
  array differ in shape.
\<close>

definition boolean_index :: "real list list list \<Rightarrow> int list list list \<Rightarrow> py_error + real list" where
  "boolean_index image_array mask_array =
     (if \<not> same_shape image_array mask_array then Inl IndexError
      else Inr (map fst (filter (\<lambda>(v, m). m \<noteq> 0) (zip (flatten image_array) (flatten mask_array)))))"

text \<open>\<^verbatim>\<open>np.max\<close> and \<^verbatim>\<open>np.min\<close> raise \<^verbatim>\<open>ValueError\<close> on an empty array.\<close>

definition np_max :: "real list \<Rightarrow> py_error + real" where
  "np_max xs =
     (case xs of
        [] \<Rightarrow> Inl (ValueError ''zero-size array to reduction operation'')
      | x # rest \<Rightarrow> Inr (fold max rest x))"

definition np_min :: "real list \<Rightarrow> py_error + real" where
  "np_min xs =
     (case xs of
        [] \<Rightarrow> Inl (ValueError ''zero-size array to reduction operation'')
      | x # rest \<Rightarrow> Inr (fold min rest x))"

text \<open>
  The arithmetic of the image array's dtype: the difference of two of its elements (in
  an integer dtype it wraps around) and the quotient of such a difference by an integer,
  a double.
\<close>

record image_arith =
  subtract :: "real \<Rightarrow> real \<Rightarrow> real"
  true_divide :: "real \<Rightarrow> nat \<Rightarrow> real"

text \<open>\<^verbatim>\<open>nr_bins\<close> is 64 at the only call.\<close>

definition get_settings ::
  "image_arith \<Rightarrow> real list list list \<Rightarrow> int list list list \<Rightarrow> nat \<Rightarrow> py_error + settings" where
  "get_settings dt image_array_in mask_array_in nr_bins =
     (let mask_sum = np_sum mask_array_in
      in if mask_sum = 0 then
           Inl (ValueError ''Mask is empty. Cannot compute intensity range.'')
         else
           (case boolean_index image_array_in mask_array_in of
              Inl e \<Rightarrow> Inl e
            | Inr selected \<Rightarrow>
                (case np_max selected of
                   Inl e \<Rightarrow> Inl e
                 | Inr hi \<Rightarrow>
                     (case np_min selected of
                        Inl e \<Rightarrow> Inl e
                      | Inr lo \<Rightarrow>
                          (let intensity_range = subtract dt hi lo
                           in Inr \<lparr>binWidth = true_divide dt intensity_range nr_bins,
                                   correctMask = True\<rparr>)))))"

subsection \<open>Feature vectors: \<^verbatim>\<open>extract_features\<close>\<close>

text \<open>
  What the radiomics library stores under a feature name: a float, a NumPy array (its
  elements), or something else (the strings, tuples and dictionaries of the diagnostics).
\<close>

datatype py_obj = PyFloat real | NdArray "real list" | PyOther string

type_synonym feature_vector = "(string \<times> py_obj) list"

text \<open>
  The radiomics library is not part of the package: the extractor (constructed with the
  settings, one feature class enabled, run on image and mask) is a parameter.
\<close>

type_synonym extractor =
  "settings \<Rightarrow> string \<Rightarrow> real sitk_image \<Rightarrow> int sitk_image \<Rightarrow> py_error + feature_vector"

text \<open>
  \<^verbatim>\<open>float(a)\<close> of an array is its element when it has one, and \<^verbatim>\<open>TypeError\<close>
  otherwise.
\<close>

definition to_float :: "py_obj \<Rightarrow> py_error + py_obj" where
  "to_float v =
     (case v of
        NdArray [x] \<Rightarrow> Inr (PyFloat x)
      | NdArray _ \<Rightarrow> Inl TypeError
      | _ \<Rightarrow> Inr v)"

text \<open>Lines 134 to 136: every array value is replaced by its float, key by key.\<close>

fun convert_arrays :: "feature_vector \<Rightarrow> py_error + feature_vector" where
  "convert_arrays [] = Inr []"
| "convert_arrays ((key, v) # rest) =
     (case to_float v of
        Inl e \<Rightarrow> Inl e
      | Inr v' \<Rightarrow>
          (case convert_arrays rest of
             Inl e \<Rightarrow> Inl e
           | Inr rest' \<Rightarrow> Inr ((key, v') # rest')))"

definition extract_features ::
  "image_arith \<Rightarrow> extractor \<Rightarrow> real sitk_image \<Rightarrow> int sitk_image \<Rightarrow> string \<Rightarrow>
   py_error + feature_vector" where
  "extract_features dt execute img msk feature_class =
     (case get_settings dt (pixels img) (pixels msk) 64 of
        Inl e \<Rightarrow> Inl e
      | Inr stg \<Rightarrow>
          (case execute stg feature_class img msk of
             Inl e \<Rightarrow> Inl e
           | Inr feature_vector \<Rightarrow> convert_arrays feature_vector))"

subsection \<open>The extraction loops: \<^verbatim>\<open>extract_radiomics_features\<close>\<close>

text \<open>\<^verbatim>\<open>d[key] = v\<close>: an existing key keeps its place, a new key goes last.\<close>

fun dict_set :: "('k \<times> 'v) list \<Rightarrow> 'k \<Rightarrow> 'v \<Rightarrow> ('k \<times> 'v) list" where
  "dict_set [] key v = [(key, v)]"
| "dict_set ((k, w) # d) key v =
     (if k = key then (k, v) # d else (k, w) # dict_set d key v)"

type_synonym feature_vectors = "(string \<times> feature_vector) list"

text \<open>The inner loop (lines 189 to 195), from a dictionary filled so far.\<close>

fun feature_class_loop ::
  "image_arith \<Rightarrow> extractor \<Rightarrow> real sitk_image \<Rightarrow> int sitk_image \<Rightarrow> string \<Rightarrow>
   string list \<Rightarrow> feature_vectors \<Rightarrow> py_error + feature_vectors" where
  "feature_class_loop dt execute img new_mask region_class [] fvs = Inr fvs"
| "feature_class_loop dt execute img new_mask region_class (feature_class # rest) fvs =
     (case extract_features dt execute img new_mask feature_class of
        Inl e \<Rightarrow> Inl e
      | Inr feature_vector \<Rightarrow>
          feature_class_loop dt execute img new_mask region_class rest
            (dict_set fvs (region_class @ ''_'' @ feature_class) feature_vector))"

text \<open>The outer loop (lines 171 to 195).\<close>

fun region_class_loop ::
  "image_arith \<Rightarrow> extractor \<Rightarrow> real sitk_image \<Rightarrow> int sitk_image \<Rightarrow>
   int list list list \<Rightarrow> nat list \<Rightarrow> string list \<Rightarrow> string list \<Rightarrow> feature_vectors \<Rightarrow>
   py_error + feature_vectors" where
  "region_class_loop dt execute img msk mask_array nonzero_slices [] feature_classes fvs =
     Inr fvs"
| "region_class_loop dt execute img msk mask_array nonzero_slices (region_class # rest)
     feature_classes fvs =
     (let slice_indices = slice_indices_of region_class nonzero_slices;
          new_mask = region_mask msk mask_array slice_indices
      in case feature_class_loop dt execute img new_mask region_class feature_classes fvs of
           Inl e \<Rightarrow> Inl e
         | Inr fvs' \<Rightarrow>
             region_class_loop dt execute img msk mask_array nonzero_slices rest
               feature_classes fvs')"

definition extract_radiomics_features ::
  "image_arith \<Rightarrow> extractor \<Rightarrow> real sitk_image \<Rightarrow> int sitk_image \<Rightarrow> string list \<Rightarrow>
   string list \<Rightarrow> py_error + feature_vectors" where
  "extract_radiomics_features dt execute img msk region_classes feature_classes =
     (let msk' = prepare_mask img msk;
          mask_array = binary_array (pixels msk');
          nonzero_slices = nonzero_slices_of mask_array
      in region_class_loop dt execute img msk' mask_array nonzero_slices region_classes
           feature_classes [])"

subsection \<open>Filtering and flattening: \<^verbatim>\<open>extract_filtered_values\<close>, \<^verbatim>\<open>feature_extraction\<close>\<close>

text \<open>Python's \<^verbatim>\<open>sub in s\<close> on strings: \<open>sub\<close> starts at some position of \<open>s\<close>.\<close>

fun starts_with :: "string \<Rightarrow> string \<Rightarrow> bool" where
  "starts_with s [] = True"
| "starts_with [] (p # ps) = False"
| "starts_with (c # s) (p # ps) = (c = p \<and> starts_with s ps)"

fun str_in :: "string \<Rightarrow> string \<Rightarrow> bool" where
  "str_in sub [] = (sub = [])"
| "str_in sub (c # s) = (starts_with (c # s) sub \<or> str_in sub s)"

text \<open>The dictionary comprehension of lines 212 and 213.\<close>

definition without_diagnostics :: "feature_vector \<Rightarrow> feature_vector" where
  "without_diagnostics fv =
     filter (\<lambda>(var_key, var_value). \<not> str_in ''diagnostics'' var_key) fv"

text \<open>
  The function rebinds every key of its argument (lines 211 to 213) and then collects
  the values (lines 216 to 219). The dictionary is passed by reference, so the rebinding
  is the caller's to see: the result is the returned array together with the argument as
  it stands when the call returns.
\<close>

definition extract_filtered_values :: "feature_vectors \<Rightarrow> py_obj list \<times> feature_vectors" where
  "extract_filtered_values extracted_features =
     (let extracted_features' =
            map (\<lambda>(key, fv). (key, without_diagnostics fv)) extracted_features;
          values_array = concat (map (\<lambda>(key, fv). map snd fv) extracted_features')
      in (values_array, extracted_features'))"

definition region_classes :: "string list" where
  "region_classes = [''wholeprostate'', ''apex'', ''base'']"

definition feature_classes :: "string list" where
  "feature_classes = [''firstorder'', ''shape'', ''glcm'', ''glrlm'', ''glszm'', ''ngtdm'', ''gldm'']"

definition feature_extraction ::
  "image_arith \<Rightarrow> extractor \<Rightarrow> real sitk_image \<Rightarrow> int sitk_image \<Rightarrow> py_error + py_obj list" where
  "feature_extraction dt execute img msk =
     (case extract_radiomics_features dt execute img msk region_classes feature_classes of
        Inl e \<Rightarrow> Inl e
      | Inr extracted_features \<Rightarrow> Inr (fst (extract_filtered_values extracted_features)))"

subsection \<open>Notions of the specification, and example inputs\<close>




text \<open>A binary mask holds only 0 and 1; a slice is nonzero when one of its voxels is.\<close>

definition is_binary :: "int list list list \<Rightarrow> bool" where
  "is_binary a = (\<forall>s\<in>set a. \<forall>r\<in>set s. \<forall>v\<in>set r. v = 0 \<or> v = 1)"

definition nonzero_slice :: "int list list \<Rightarrow> bool" where
  "nonzero_slice s = (\<exists>r\<in>set s. \<exists>v\<in>set r. v \<noteq> 0)"

text \<open>
  An extractor that refuses every call whose image is not \<open>img\<close> or whose mask does not
  carry the origin and direction of \<open>img\<close> and the spacing of \<open>msk\<close>. Extraction that runs
  unchanged under it makes only such calls.
\<close>

definition with_geometry_check :: "real sitk_image \<Rightarrow> int sitk_image \<Rightarrow> extractor \<Rightarrow> extractor" where
  "with_geometry_check img msk execute =
     (\<lambda>stg feature_class i m.
        if i = img \<and> origin m = origin img \<and> direction m = direction img \<and> spacing m = spacing msk
        then execute stg feature_class i m
        else Inl (ExtractorError ''geometry''))"

text \<open>
  The arithmetic of a 16-bit signed integer image: the difference of two elements is
  again a 16-bit integer, so it wraps around, and its quotient by an integer is exact in
  a double.
\<close>

definition wrap_signed :: "nat \<Rightarrow> int \<Rightarrow> int" where
  "wrap_signed w x = (x + 2 ^ (w - 1)) mod 2 ^ w - 2 ^ (w - 1)"

definition int16_arith :: image_arith where
  "int16_arith =
     \<lparr>subtract = (\<lambda>a b. of_int (wrap_signed 16 (\<lfloor>a\<rfloor> - \<lfloor>b\<rfloor>))),
      true_divide = (\<lambda>x n. x / real n)\<rparr>"


text \<open>
  A 6-slice image of 16-bit integers, a mask on it with four nonzero slices and another
  spacing, and a mask with two nonzero slices.
\<close>

definition example_image :: "real sitk_image" where
  "example_image =
     \<lparr>pixels = [[[1, 2]], [[3, 4]], [[5, 6]], [[7, 71]], [[8, 9]], [[10, 12]]],
      spacing = [1, 1, 3], origin = [5, 6, 7], direction = [1, 0, 0, 0, 1, 0, 0, 0, 1]\<rparr>"

definition example_mask :: "int sitk_image" where
  "example_mask =
     \<lparr>pixels = [[[0, 0]], [[1, 1]], [[0, 1]], [[1, 1]], [[0, 0]], [[1, 1]]],
      spacing = [2, 2, 2], origin = [0, 0, 0], direction = [1, 0, 0, 0, 1, 0, 0, 0, - 1]\<rparr>"

definition two_slice_mask :: "int sitk_image" where
  "two_slice_mask =
     \<lparr>pixels = [[[0, 0]], [[1, 0]], [[0, 1]]],
      spacing = [1, 1, 3], origin = [5, 6, 7], direction = [1, 0, 0, 0, 1, 0, 0, 0, 1]\<rparr>"


text \<open>A feature vector with two diagnostics entries and a capitalised near miss.\<close>

definition example_vector :: feature_vector where
  "example_vector =
     [(''diagnostics_Versions_PyRadiomics'', PyOther ''v3''),
      (''original_firstorder_Mean'', PyFloat 4),
      (''Image_diagnostics_Mean'', PyFloat 7),
      (''original_Diagnostics_Energy'', PyFloat 9)]"

text \<open>
  An extractor for the examples: a diagnostics entry, the intensity range as an array,
  and the length of the feature class name.
\<close>

definition example_extractor :: extractor where
  "example_extractor stg feature_class i m =
     Inr [(''diagnostics_Configuration_Settings'', PyOther ''binWidth''),
          (''original_'' @ feature_class @ ''_Range'', NdArray [binWidth stg * 64]),
          (''original_'' @ feature_class @ ''_NameLength'', PyFloat (real (length feature_class)))]"

section \<open>The scoring engine\<close>

lemma calculate_quality_score_mismatch:
  "length predictors \<noteq> length coefs \<Longrightarrow>
   calculate_quality_score ar predictors coefs intercept =
     Inl (ValueError ''shapes not aligned'')"
  by (simp add: calculate_quality_score_def np_dot_def)







text \<open>
  C4. \<^verbatim>\<open>classify_quality\<close> answers "Acceptable" exactly when the score is at least the
  threshold and "NOT Acceptable" exactly when it is below; a score equal to the threshold
  is Acceptable. (This holds for every threshold, those of \<open>[0, 100]\<close> among them.)
\<close>

theorem classify_quality_boundary:
  "(classify_quality s t = ''Acceptable'') = (t \<le> s)
   \<and> (classify_quality s t = ''NOT Acceptable'') = (s < t)
   \<and> classify_quality t t = ''Acceptable''"
  by (simp add: classify_quality_def)

theorem classify_quality_boundary_witness:
  "classify_quality 85 85 = ''Acceptable''
   \<and> classify_quality 84.99 85 = ''NOT Acceptable''
   \<and> classify_quality 50 40 = ''Acceptable''"
  using classify_quality_boundary [of 85 85] classify_quality_boundary [of "84.99" 85]
    classify_quality_boundary [of 50 40]
  by simp

text \<open>
  C5. When predictors and coefficients differ in length, scoring raises
  \<^verbatim>\<open>ValueError\<close> (from \<^verbatim>\<open>np.dot\<close>): neither \<^verbatim>\<open>calculate_quality_score\<close> nor
  \<^verbatim>\<open>quality_prediction\<close> returns a score, so nothing is truncated or padded.
\<close>

theorem length_mismatch_raises:
  assumes "length predictors \<noteq> length coefs"
  shows "calculate_quality_score ar predictors coefs intercept =
           Inl (ValueError ''shapes not aligned'')
         \<and> quality_prediction ar (CoefArray coefs) predictors threshold =
           Inl (ValueError ''shapes not aligned'')
         \<and> (\<nexists>s. calculate_quality_score ar predictors coefs intercept = Inr s)
         \<and> (\<nexists>r. quality_prediction ar (CoefArray coefs) predictors threshold = Inr r)"
  using assms
  by (simp add: calculate_quality_score_mismatch quality_prediction_def
      read_coef_array_from_json_def)

theorem length_mismatch_raises_witness:
  "length [1, 2, 3 :: real] \<noteq> length [1, 2 :: real]
   \<and> (\<forall>ar. calculate_quality_score ar [1, 2, 3] [1, 2] 0 =
          Inl (ValueError ''shapes not aligned''))
   \<and> (\<forall>ar. quality_prediction ar (CoefArray [1, 2]) [1, 2, 3] 85 =
          Inl (ValueError ''shapes not aligned''))
   \<and> (\<forall>ar. calculate_quality_score ar [1] [1, 2] 0 = Inl (ValueError ''shapes not aligned''))"
  using length_mismatch_raises [of "[1, 2, 3]" "[1, 2]" _ 0 85]
    length_mismatch_raises [of "[1]" "[1, 2]" _ 0 85]
  by simp

section \<open>The region partitioner\<close>

lemma math_floor_third: "math_floor (real n / 3) = int (n div 3)"
  using floor_divide_of_nat_eq [of n 3, where ?'a = real] by (simp add: math_floor_def)

lemma slice_indices_apex: "slice_indices_of ''apex'' ns = take (length ns div 3) ns"
  by (simp add: slice_indices_of_def math_floor_third py_slice_def slice_bound_def)

lemma slice_indices_base: "slice_indices_of ''base'' ns = drop (length ns - length ns div 3) ns"
proof -
  have "nat (int (length ns) - int (length ns div 3)) = length ns - length ns div 3"
    by simp
  moreover have "\<not> int (length ns) - int (length ns div 3) < 0"
    by simp
  ultimately show ?thesis
    by (simp add: slice_indices_of_def math_floor_third py_slice_from_def slice_bound_def)
qed

lemma slice_indices_whole:
  "rc \<noteq> ''apex'' \<Longrightarrow> rc \<noteq> ''base'' \<Longrightarrow> slice_indices_of rc ns = ns"
  by (simp add: slice_indices_of_def)

lemma slice_indices_subset: "set (slice_indices_of rc ns) \<subseteq> set ns"
proof -
  have "set (take k ns) \<subseteq> set ns" "set (drop k ns) \<subseteq> set ns" for k
    by (auto dest: in_set_takeD in_set_dropD)
  then show ?thesis
    by (cases "rc = ''apex''"; cases "rc = ''base''")
       (simp_all add: slice_indices_apex slice_indices_base slice_indices_whole)
qed

lemma assign_slices_length: "length (assign_slices new src idx) = length new"
  unfolding assign_slices_def by (induction idx arbitrary: new) simp_all

lemma assign_slices_nth:
  "i < length new \<Longrightarrow>
   assign_slices new src idx ! i = (if i \<in> set idx then src ! i else new ! i)"
  unfolding assign_slices_def
proof (induction idx arbitrary: new)
  case Nil
  then show ?case by simp
next
  case (Cons j idx)
  then show ?case by (simp add: nth_list_update)
qed

lemma sum_axis12_nth:
  "i < length a \<Longrightarrow> sum_axis12 a ! i = sum_list (map sum_list (a ! i))"
  by (simp add: sum_axis12_def)

lemma slice_sum_zero_iff:
  assumes "\<forall>r\<in>set s. \<forall>v\<in>set r. (0::int) \<le> v"
  shows "sum_list (map sum_list s) \<noteq> 0 \<longleftrightarrow> nonzero_slice s"
proof -
  have row: "sum_list r = 0 \<longleftrightarrow> (\<forall>v\<in>set r. v = 0)" if "r \<in> set s" for r
    using assms that by (intro sum_list_nonneg_eq_0_iff) auto
  have "sum_list (map sum_list s) = 0 \<longleftrightarrow> (\<forall>x\<in>set (map sum_list s). x = 0)"
    using assms by (intro sum_list_nonneg_eq_0_iff) (auto intro: sum_list_nonneg)
  also have "\<dots> \<longleftrightarrow> (\<forall>r\<in>set s. \<forall>v\<in>set r. v = 0)"
    using row by auto
  finally show ?thesis by (auto simp: nonzero_slice_def)
qed

lemma nonzero_slices_of_eq:
  assumes "\<forall>s\<in>set a. \<forall>r\<in>set s. \<forall>v\<in>set r. (0::int) \<le> v"
  shows "nonzero_slices_of a = filter (\<lambda>i. nonzero_slice (a ! i)) [0..<length a]"
proof -
  have "sum_axis12 a ! i \<noteq> 0 \<longleftrightarrow> nonzero_slice (a ! i)" if "i < length a" for i
  proof -
    have "\<forall>r\<in>set (a ! i). \<forall>v\<in>set r. 0 \<le> v"
      using that assms nth_mem [of i a] by blast
    then show ?thesis
      using that by (simp add: sum_axis12_nth slice_sum_zero_iff)
  qed
  note eq = this
  have len: "length (sum_axis12 a) = length a"
    by (simp add: sum_axis12_def)
  show ?thesis
    unfolding nonzero_slices_of_def np_nonzero_def len
    by (rule filter_cong) (use eq in auto)
qed

lemma binary_array_id: "is_binary a \<Longrightarrow> binary_array (map (map (map (\<lambda>v. v mod 256))) a) = a"
proof -
  have "(if 0 < v mod 256 then 1 else 0) = v" if "v = 0 \<or> v = 1" for v :: int
    using that by auto
  then show "is_binary a \<Longrightarrow> binary_array (map (map (map (\<lambda>v. v mod 256))) a) = a"
    unfolding binary_array_def is_binary_def
    by (auto intro!: map_idI)
qed


lemma zeros_like_shape: "same_shape (zeros_like a) a"
  by (simp add: same_shape_def zeros_like_def comp_def)

lemma assign_slices_shape:
  "same_shape new src \<Longrightarrow> same_shape (assign_slices new src idx) src"
  unfolding assign_slices_def
proof (induction idx arbitrary: new)
  case Nil
  then show ?case by simp
next
  case (Cons j idx)
  have "same_shape (new[j := src ! j]) src"
  proof (cases "j < length new")
    case True
    with Cons.prems have "(map (map length) new)[j := map length (src ! j)] = map (map length) src"
      by (metis same_shape_def length_map list_update_id nth_map)
    then show ?thesis by (simp add: same_shape_def map_update)
  next
    case False
    with Cons.prems show ?thesis by (simp add: list_update_beyond)
  qed
  then show ?case using Cons.IH by simp
qed

lemma region_mask_pixels:
  "pixels (region_mask m a idx) = assign_slices (zeros_like a) a idx"
  by (simp add: region_mask_def GetImageFromArray_def CopyInformation_def)

lemma zero_slice_not_nonzero: "\<not> nonzero_slice (map (map (\<lambda>v. 0)) s)"
  by (auto simp: nonzero_slice_def)

lemma prepare_mask_pixels:
  "pixels (prepare_mask img msk) = map (map (map (\<lambda>v. v mod 256))) (pixels msk)"
  by (simp add: prepare_mask_def SetOrigin_def SetDirection_def Cast_UInt8_def)

lemma zeros_like_nth: "i < length a \<Longrightarrow> zeros_like a ! i = map (map (\<lambda>v. 0)) (a ! i)"
  by (simp add: zeros_like_def)

text \<open>
  C1. For a binary mask, the nonzero slices are the indices of the slices that hold a
  nonzero voxel, in slice order; with \<open>N\<close> of them, the whole region is all of them, the
  apex their first \<open>N div 3\<close>, the base those from position \<open>N - N div 3\<close> on. The mask of
  a region has the shape of the mask, equals it on the selected slices and is zero on
  the others, so exactly the selected slices are nonzero.
\<close>

theorem region_partition:
  assumes "is_binary (pixels msk)"
    and "mask_array = binary_array (pixels (prepare_mask img msk))"
    and "ns = nonzero_slices_of mask_array"
    and "idx = slice_indices_of region_class ns"
    and "new = pixels (region_mask (prepare_mask img msk) mask_array idx)"
  shows "ns = filter (\<lambda>i. nonzero_slice (pixels msk ! i)) [0..<length (pixels msk)]
    \<and> slice_indices_of ''wholeprostate'' ns = ns
    \<and> slice_indices_of ''apex'' ns = take (length ns div 3) ns
    \<and> slice_indices_of ''base'' ns = drop (length ns - length ns div 3) ns
    \<and> same_shape new (pixels msk)
    \<and> (\<forall>i<length (pixels msk).
          new ! i = (if i \<in> set idx then pixels msk ! i else map (map (\<lambda>v. 0)) (pixels msk ! i)))
    \<and> (\<forall>i<length (pixels msk). nonzero_slice (new ! i) = (i \<in> set idx))"
proof -
  have arr: "mask_array = pixels msk"
    using assms(1,2) by (simp add: prepare_mask_pixels binary_array_id)
  have nonneg: "\<forall>s\<in>set (pixels msk). \<forall>r\<in>set s. \<forall>v\<in>set r. 0 \<le> v"
    using assms(1) unfolding is_binary_def by fastforce
  have ns: "ns = filter (\<lambda>i. nonzero_slice (pixels msk ! i)) [0..<length (pixels msk)]"
    using assms(3) nonneg by (simp add: arr nonzero_slices_of_eq)
  have new: "new = assign_slices (zeros_like (pixels msk)) (pixels msk) idx"
    using assms(5) by (simp add: region_mask_pixels arr)
  have shape: "same_shape new (pixels msk)"
    unfolding new by (rule assign_slices_shape) (rule zeros_like_shape)
  have nth: "new ! i = (if i \<in> set idx then pixels msk ! i else map (map (\<lambda>v. 0)) (pixels msk ! i))"
    if "i < length (pixels msk)" for i
    using that unfolding new by (simp add: assign_slices_nth zeros_like_def)
  have "nonzero_slice (new ! i) = (i \<in> set idx)" if "i < length (pixels msk)" for i
  proof (cases "i \<in> set idx")
    case True
    then have "i \<in> set ns"
      using assms(4) slice_indices_subset by blast
    then have "nonzero_slice (pixels msk ! i)"
      unfolding ns by simp
    with True that show ?thesis by (simp add: nth)
  next
    case False
    with that show ?thesis by (simp add: nth zero_slice_not_nonzero)
  qed
  with ns shape nth show ?thesis
    by (simp add: slice_indices_apex slice_indices_base slice_indices_whole)
qed

lemma ex_ns: "nonzero_slices_of (binary_array (pixels (prepare_mask example_image example_mask))) = [1, 2, 3, 5]"
  by code_simp

lemma ex_bin: "is_binary (pixels example_mask)"
  by code_simp

lemma ex_array: "binary_array (pixels (prepare_mask example_image example_mask)) = pixels example_mask"
  by code_simp

theorem region_partition_witness:
  "is_binary (pixels example_mask)
   \<and> nonzero_slices_of (binary_array (pixels (prepare_mask example_image example_mask))) = [1, 2, 3, 5]
   \<and> slice_indices_of ''wholeprostate'' [1, 2, 3, 5] = [1, 2, 3, 5]
   \<and> slice_indices_of ''apex'' [1, 2, 3, 5] = [1]
   \<and> slice_indices_of ''base'' [1, 2, 3, 5] = [5]
   \<and> pixels (region_mask (prepare_mask example_image example_mask) (pixels example_mask) [5]) ! 5 = [[1, 1]]
   \<and> pixels (region_mask (prepare_mask example_image example_mask) (pixels example_mask) [5]) ! 1 = [[0, 0]]"
proof -
  note t = region_partition [OF ex_bin refl refl refl refl, of example_image "''base''",
      unfolded ex_ns]
  have whole: "slice_indices_of ''wholeprostate'' [1, 2, 3, 5] = [1, 2, 3, 5]"
    using t [THEN conjunct2, THEN conjunct1] .
  have apex: "slice_indices_of ''apex'' [1, 2, 3, 5] = [1]"
    using t [THEN conjunct2, THEN conjunct2, THEN conjunct1] by simp
  have base: "slice_indices_of ''base'' [1, 2, 3, 5] = [5]"
    using t [THEN conjunct2, THEN conjunct2, THEN conjunct2, THEN conjunct1] by simp
  have len: "length (pixels example_mask) = 6"
    by (simp add: example_mask_def)
  note nth = t [unfolded ex_array base len, THEN conjunct2, THEN conjunct2, THEN conjunct2,
      THEN conjunct2, THEN conjunct2, THEN conjunct1, rule_format]
  have p5: "pixels (region_mask (prepare_mask example_image example_mask) (pixels example_mask) [5]) ! 5 = [[1, 1]]"
    using nth [of 5] by (simp add: example_mask_def)
  have p1: "pixels (region_mask (prepare_mask example_image example_mask) (pixels example_mask) [5]) ! 1 = [[0, 0]]"
    using nth [of 1] by (simp add: example_mask_def)
  from ex_bin ex_ns base apex whole p5 p1 show ?thesis by simp
qed

text \<open>
  C8, as amended. With fewer than 3 nonzero slices the apex region is empty, and so is
  the base region: the base starts at position \<open>N - 0 = N\<close>, the end of the sequence.
  Unless the mask has no nonzero slice at all, the base is therefore not the whole
  region.
\<close>

theorem small_mask_apex_and_base_empty:
  assumes "ns = nonzero_slices_of (binary_array (pixels (prepare_mask img msk)))"
    and "length ns < 3"
  shows "slice_indices_of ''apex'' ns = []
         \<and> slice_indices_of ''base'' ns = []
         \<and> (ns \<noteq> [] \<longrightarrow>
              slice_indices_of ''base'' ns \<noteq> slice_indices_of ''wholeprostate'' ns)"
  using assms(2) by (simp add: slice_indices_apex slice_indices_base slice_indices_whole)

lemma two_ns: "nonzero_slices_of (binary_array (pixels (prepare_mask example_image two_slice_mask))) = [1, 2]"
  by code_simp

theorem small_mask_apex_and_base_empty_witness:
  "length (nonzero_slices_of (binary_array (pixels (prepare_mask example_image two_slice_mask)))) < 3
   \<and> slice_indices_of ''apex'' [1, 2] = []
   \<and> slice_indices_of ''base'' [1, 2] = []
   \<and> slice_indices_of ''base'' [1, 2] \<noteq> slice_indices_of ''wholeprostate'' [1, 2]"
proof -
  have l: "length (nonzero_slices_of
      (binary_array (pixels (prepare_mask example_image two_slice_mask)))) < 3"
    unfolding two_ns by simp
  note t = small_mask_apex_and_base_empty [OF refl l, unfolded two_ns]
  have "[1, 2 :: nat] \<noteq> []"
    by simp
  with l t show ?thesis by blast
qed

text \<open>
  C8 as stated fails: a mask with the two nonzero slices 1 and 2 has the whole region
  \<open>[1, 2]\<close>, an empty apex and an empty base, not a base of all slices.
\<close>

theorem base_of_small_mask_counterexample:
  "nonzero_slices_of (binary_array (pixels (prepare_mask example_image two_slice_mask))) = [1, 2]
   \<and> slice_indices_of ''wholeprostate'' [1, 2] = [1, 2]
   \<and> slice_indices_of ''apex'' [1, 2] = []
   \<and> slice_indices_of ''base'' [1, 2] = []
   \<and> slice_indices_of ''base'' [1, 2] \<noteq> [1, 2]"
  by (simp add: two_ns slice_indices_apex slice_indices_base slice_indices_whole)

section \<open>Geometry of the masks passed to extraction\<close>

lemma prepare_mask_geometry:
  "origin (prepare_mask img msk) = origin img"
  "direction (prepare_mask img msk) = direction img"
  "spacing (prepare_mask img msk) = spacing msk"
  by (simp_all add: prepare_mask_def SetOrigin_def SetDirection_def Cast_UInt8_def)

lemma region_mask_copies_geometry:
  "origin (region_mask m a idx) = origin m"
  "direction (region_mask m a idx) = direction m"
  "spacing (region_mask m a idx) = spacing m"
  by (simp_all add: region_mask_def CopyInformation_def GetImageFromArray_def)

lemma extract_features_checked:
  assumes "origin m = origin img" "direction m = direction img" "spacing m = spacing msk"
  shows "extract_features dt (with_geometry_check img msk execute) img m fc
       = extract_features dt execute img m fc"
  using assms by (simp add: extract_features_def with_geometry_check_def split: sum.split)

lemma feature_class_loop_checked:
  assumes "origin m = origin img" "direction m = direction img" "spacing m = spacing msk"
  shows "feature_class_loop dt (with_geometry_check img msk execute) img m rc fcs fvs
       = feature_class_loop dt execute img m rc fcs fvs"
  by (induction fcs arbitrary: fvs)
     (simp_all add: extract_features_checked [OF assms] split: sum.split)

lemma region_class_loop_checked:
  assumes "origin m = origin img" "direction m = direction img" "spacing m = spacing msk"
  shows "region_class_loop dt (with_geometry_check img msk execute) img m a ns rcs fcs fvs
       = region_class_loop dt execute img m a ns rcs fcs fvs"
proof (induction rcs arbitrary: fvs)
  case Nil
  then show ?case by simp
next
  case (Cons rc rcs)
  have "feature_class_loop dt (with_geometry_check img msk execute) img
          (region_mask m a (slice_indices_of rc ns)) rc fcs fvs
        = feature_class_loop dt execute img (region_mask m a (slice_indices_of rc ns)) rc fcs fvs"
    by (rule feature_class_loop_checked) (simp_all add: region_mask_copies_geometry assms)
  then show ?case by (simp add: Cons.IH Let_def split: sum.split)
qed

text \<open>
  C9, as amended. The mask is given the origin and the direction of the image before any
  region mask is built; its spacing is left as it was. Every region mask carries the
  image's origin and direction and the input mask's spacing, and every call of the
  extractor is made with the image and such a mask.
\<close>

theorem mask_takes_origin_and_direction:
  "origin (region_mask (prepare_mask img msk) a idx) = origin img
   \<and> direction (region_mask (prepare_mask img msk) a idx) = direction img
   \<and> spacing (region_mask (prepare_mask img msk) a idx) = spacing msk
   \<and> extract_radiomics_features dt (with_geometry_check img msk execute) img msk rcs fcs
     = extract_radiomics_features dt execute img msk rcs fcs"
  by (simp add: region_mask_copies_geometry prepare_mask_geometry
      extract_radiomics_features_def Let_def region_class_loop_checked)

theorem mask_takes_origin_and_direction_witness:
  "origin (region_mask (prepare_mask example_image example_mask) (pixels example_mask) [5])
     = [5, 6, 7]
   \<and> direction (region_mask (prepare_mask example_image example_mask) (pixels example_mask) [5])
     = [1, 0, 0, 0, 1, 0, 0, 0, 1]
   \<and> spacing (region_mask (prepare_mask example_image example_mask) (pixels example_mask) [5])
     = [2, 2, 2]"
  using mask_takes_origin_and_direction
    [of example_image example_mask "pixels example_mask" "[5]"]
  by (simp add: example_image_def example_mask_def)

text \<open>
  C9 as stated fails for the spacing: the example mask keeps its spacing \<open>[2, 2, 2]\<close>
  while the image has \<open>[1, 1, 3]\<close>, and the region masks inherit the mask's.
\<close>

theorem mask_spacing_counterexample:
  "spacing example_image = [1, 1, 3]
   \<and> spacing (prepare_mask example_image example_mask) = [2, 2, 2]
   \<and> spacing (region_mask (prepare_mask example_image example_mask)
        (binary_array (pixels (prepare_mask example_image example_mask))) [1, 2, 3, 5]) = [2, 2, 2]
   \<and> spacing (region_mask (prepare_mask example_image example_mask)
        (binary_array (pixels (prepare_mask example_image example_mask))) [1, 2, 3, 5])
     \<noteq> spacing example_image"
  by (simp add: region_mask_copies_geometry prepare_mask_geometry example_image_def
      example_mask_def)

section \<open>The extraction settings\<close>

















section \<open>Filtering and flattening\<close>

lemma starts_with_iff: "starts_with s p \<longleftrightarrow> (\<exists>ss. s = p @ ss)"
  by (induction s p rule: starts_with.induct) auto

lemma str_in_iff: "str_in sub s \<longleftrightarrow> (\<exists>ps ss. s = ps @ sub @ ss)"
proof (induction s)
  case Nil
  then show ?case by auto
next
  case (Cons c s)
  show ?case
  proof
    assume "str_in sub (c # s)"
    then consider "starts_with (c # s) sub" | "str_in sub s" by auto
    then show "\<exists>ps ss. c # s = ps @ sub @ ss"
    proof cases
      case 1
      then obtain ss where "c # s = sub @ ss" by (auto simp: starts_with_iff)
      then have "c # s = [] @ sub @ ss" by simp
      then show ?thesis by blast
    next
      case 2
      then obtain ps ss where "s = ps @ sub @ ss" using Cons.IH by blast
      then have "c # s = (c # ps) @ sub @ ss" by simp
      then show ?thesis by blast
    qed
  next
    assume "\<exists>ps ss. c # s = ps @ sub @ ss"
    then obtain ps ss where eq: "c # s = ps @ sub @ ss" by blast
    show "str_in sub (c # s)"
    proof (cases ps)
      case Nil
      with eq have "starts_with (c # s) sub" by (auto simp: starts_with_iff)
      then show ?thesis by simp
    next
      case (Cons a ps')
      with eq have "s = ps' @ sub @ ss" by simp
      then have "str_in sub s" using Cons.IH by blast
      then show ?thesis by simp
    qed
  qed
qed

text \<open>
  C6. The filtering keeps exactly the entries whose name does not contain the string
  \<open>diagnostics\<close> (at any position, characters compared as they are), in their order
  and with their values, and the returned array holds the values of the kept entries.
\<close>

theorem diagnostics_filter:
  "without_diagnostics fv =
     filter (\<lambda>(name, v). \<not> (\<exists>ps ss. name = ps @ ''diagnostics'' @ ss)) fv
   \<and> ((name, v) \<in> set (without_diagnostics fv)) =
       ((name, v) \<in> set fv \<and> \<not> (\<exists>ps ss. name = ps @ ''diagnostics'' @ ss))
   \<and> fst (extract_filtered_values extracted_features) =
       concat (map (\<lambda>(key, fv).
         map snd (filter (\<lambda>(name, v). \<not> (\<exists>ps ss. name = ps @ ''diagnostics'' @ ss)) fv))
         extracted_features)"
proof -
  have 1: "without_diagnostics fv =
     filter (\<lambda>(name, v). \<not> (\<exists>ps ss. name = ps @ ''diagnostics'' @ ss)) fv" for fv
    unfolding without_diagnostics_def by (simp add: str_in_iff)
  have 2: "((name, v) \<in> set (without_diagnostics fv)) =
       ((name, v) \<in> set fv \<and> \<not> (\<exists>ps ss. name = ps @ ''diagnostics'' @ ss))"
    unfolding 1 by auto
  have 3: "fst (extract_filtered_values extracted_features) =
       concat (map (\<lambda>(key, fv). map snd (without_diagnostics fv)) extracted_features)"
    by (simp add: extract_filtered_values_def comp_def case_prod_unfold)
  show ?thesis
    using 1 2 3 by simp
qed

lemma example_without: "without_diagnostics example_vector =
     [(''original_firstorder_Mean'', PyFloat 4), (''original_Diagnostics_Energy'', PyFloat 9)]"
  by (simp add: without_diagnostics_def example_vector_def)

theorem diagnostics_filter_witness:
  "without_diagnostics example_vector =
     [(''original_firstorder_Mean'', PyFloat 4), (''original_Diagnostics_Energy'', PyFloat 9)]
   \<and> filter (\<lambda>(name, v). \<not> (\<exists>ps ss. name = ps @ ''diagnostics'' @ ss)) example_vector =
     [(''original_firstorder_Mean'', PyFloat 4), (''original_Diagnostics_Energy'', PyFloat 9)]
   \<and> fst (extract_filtered_values [(''apex_shape'', example_vector)]) = [PyFloat 4, PyFloat 9]"
proof -
  note t = diagnostics_filter [of example_vector _ _ "[(''apex_shape'', example_vector)]"]
  have a: "filter (\<lambda>(name, v). \<not> (\<exists>ps ss. name = ps @ ''diagnostics'' @ ss)) example_vector =
     [(''original_firstorder_Mean'', PyFloat 4), (''original_Diagnostics_Energy'', PyFloat 9)]"
    using t [THEN conjunct1] unfolding example_without by simp
  have b: "fst (extract_filtered_values [(''apex_shape'', example_vector)]) = [PyFloat 4, PyFloat 9]"
    using t [THEN conjunct2, THEN conjunct2]
    by (simp only: list.map prod.case concat.simps append_Nil2 a snd_conv)
  from example_without a b show ?thesis by simp
qed

text \<open>
  C10. \<^verbatim>\<open>extract_filtered_values\<close> rebinds every key of its argument to the vector
  without its diagnostics entries. When the call returns, the caller's dictionary has
  the keys it had, in their order, and no vector in it holds a diagnostics entry. The
  call does not leave its input as it was: the dictionary differs from what was passed
  exactly when there was a diagnostics entry to remove.
\<close>

theorem argument_is_filtered_in_place:
  "snd (extract_filtered_values extracted_features) =
     map (\<lambda>(key, fv). (key, without_diagnostics fv)) extracted_features
   \<and> map fst (snd (extract_filtered_values extracted_features)) = map fst extracted_features
   \<and> (\<forall>(key, fv) \<in> set (snd (extract_filtered_values extracted_features)).
         \<forall>(name, v) \<in> set fv. \<not> str_in ''diagnostics'' name)
   \<and> (snd (extract_filtered_values extracted_features) = extracted_features) =
       (\<forall>(key, fv) \<in> set extracted_features. \<forall>(name, v) \<in> set fv. \<not> str_in ''diagnostics'' name)
   \<and> \<not> (\<forall>ef. snd (extract_filtered_values ef) = ef)"
proof -
  have 1: "snd (extract_filtered_values extracted_features) =
     map (\<lambda>(key, fv). (key, without_diagnostics fv)) extracted_features"
    by (simp add: extract_filtered_values_def)
  have 2: "map fst (map (\<lambda>(key, fv). (key, without_diagnostics fv)) extracted_features)
      = map fst extracted_features"
    by (simp add: comp_def case_prod_unfold)
  have 3: "\<forall>(key, fv) \<in> set (map (\<lambda>(key, fv). (key, without_diagnostics fv)) extracted_features).
         \<forall>(name, v) \<in> set fv. \<not> str_in ''diagnostics'' name"
    by (auto simp: without_diagnostics_def)
  have fixed: "(without_diagnostics fv = fv) = (\<forall>(name, v) \<in> set fv. \<not> str_in ''diagnostics'' name)" for fv
    unfolding without_diagnostics_def by (auto simp: filter_id_conv)
  have 4: "(map (\<lambda>(key, fv). (key, without_diagnostics fv)) extracted_features = extracted_features) =
       (\<forall>(key, fv) \<in> set extracted_features. \<forall>(name, v) \<in> set fv. \<not> str_in ''diagnostics'' name)"
  proof -
    have "(map (\<lambda>(key, fv). (key, without_diagnostics fv)) extracted_features = extracted_features) =
       (\<forall>p \<in> set extracted_features. (fst p, without_diagnostics (snd p)) = p)"
      using map_eq_conv [of "\<lambda>(key, fv). (key, without_diagnostics fv)" extracted_features "\<lambda>p. p"]
      by (simp add: case_prod_unfold)
    also have "\<dots> = (\<forall>p \<in> set extracted_features. without_diagnostics (snd p) = snd p)"
      by (metis prod.collapse snd_conv)
    also have "\<dots> = (\<forall>(key, fv) \<in> set extracted_features.
        \<forall>(name, v) \<in> set fv. \<not> str_in ''diagnostics'' name)"
      by (simp add: fixed case_prod_unfold)
    finally show ?thesis .
  qed
  have "snd (extract_filtered_values [(''apex_shape'', example_vector)])
      \<noteq> [(''apex_shape'', example_vector)]"
    by (simp add: extract_filtered_values_def example_without) (simp add: example_vector_def)
  then have 5: "\<not> (\<forall>ef. snd (extract_filtered_values ef) = ef)"
    by blast
  show ?thesis unfolding 1 using 2 3 4 5 [unfolded 1] by blast
qed

theorem argument_is_filtered_in_place_witness:
  "snd (extract_filtered_values [(''apex_shape'', example_vector)]) =
     [(''apex_shape'',
       [(''original_firstorder_Mean'', PyFloat 4), (''original_Diagnostics_Energy'', PyFloat 9)])]
   \<and> snd (extract_filtered_values [(''apex_shape'', example_vector)])
       \<noteq> [(''apex_shape'', example_vector)]"
  using argument_is_filtered_in_place [of "[(''apex_shape'', example_vector)]"]
  by (simp add: example_without) (simp add: example_vector_def)

section \<open>The feature vector assembler\<close>

lemma dict_set_new: "key \<notin> fst ` set d \<Longrightarrow> dict_set d key v = d @ [(key, v)]"
  by (induction d) auto

lemma convert_arrays_keys: "convert_arrays raw = Inr fv \<Longrightarrow> map fst fv = map fst raw"
  by (induction raw arbitrary: fv) (auto split: sum.splits)

lemma extract_features_order:
  assumes "extract_features dt execute img m fc = Inr fv"
  shows "\<exists>stg raw. get_settings dt (pixels img) (pixels m) 64 = Inr stg
           \<and> execute stg fc img m = Inr raw \<and> convert_arrays raw = Inr fv
           \<and> map fst fv = map fst raw"
  using assms by (auto simp: extract_features_def convert_arrays_keys split: sum.splits)

lemma feature_class_loop_result:
  assumes "feature_class_loop dt execute img m rc fcs fvs = Inr fvs'"
    and "distinct fcs"
    and "\<forall>fc\<in>set fcs. rc @ ''_'' @ fc \<notin> fst ` set fvs"
  shows "(\<forall>fc\<in>set fcs. extract_features dt execute img m fc
            = Inr (projr (extract_features dt execute img m fc)))
       \<and> fvs' = fvs @ map (\<lambda>fc. (rc @ ''_'' @ fc, projr (extract_features dt execute img m fc))) fcs"
  using assms
proof (induction fcs arbitrary: fvs)
  case Nil
  then show ?case by simp
next
  case (Cons fc fcs)
  from Cons.prems(1) obtain fv where fv: "extract_features dt execute img m fc = Inr fv"
    and rest: "feature_class_loop dt execute img m rc fcs (dict_set fvs (rc @ ''_'' @ fc) fv) = Inr fvs'"
    by (auto split: sum.splits)
  have new: "dict_set fvs (rc @ ''_'' @ fc) fv = fvs @ [(rc @ ''_'' @ fc, fv)]"
    using Cons.prems(3) by (simp add: dict_set_new)
  have "\<forall>fc'\<in>set fcs. rc @ ''_'' @ fc' \<notin> fst ` set (fvs @ [(rc @ ''_'' @ fc, fv)])"
    using Cons.prems(2,3) by auto
  with Cons.IH [OF rest [unfolded new]] Cons.prems(2) fv show ?case
    by simp
qed


lemma region_class_loop_result:
  assumes "region_class_loop dt execute img m a ns rcs fcs fvs = Inr fvs'"
    and "distinct (concat (map (\<lambda>rc. map (\<lambda>fc. rc @ ''_'' @ fc) fcs) rcs))"
    and "distinct fcs"
    and "\<forall>rc\<in>set rcs. \<forall>fc\<in>set fcs. rc @ ''_'' @ fc \<notin> fst ` set fvs"
  shows "(\<forall>rc\<in>set rcs. \<forall>fc\<in>set fcs.
            extract_features dt execute img (region_mask m a (slice_indices_of rc ns)) fc
            = Inr (projr (extract_features dt execute img
                     (region_mask m a (slice_indices_of rc ns)) fc)))
       \<and> fvs' = fvs @ concat (map (\<lambda>rc. map (\<lambda>fc. (rc @ ''_'' @ fc,
                    projr (extract_features dt execute img
                      (region_mask m a (slice_indices_of rc ns)) fc))) fcs) rcs)"
  using assms
proof (induction rcs arbitrary: fvs)
  case Nil
  then show ?case by simp
next
  case (Cons rc rcs)
  let ?m = "region_mask m a (slice_indices_of rc ns)"
  let ?row = "map (\<lambda>fc. (rc @ ''_'' @ fc, projr (extract_features dt execute img ?m fc))) fcs"
  from Cons.prems(1) obtain mid where
    inner: "feature_class_loop dt execute img ?m rc fcs fvs = Inr mid"
    and rest: "region_class_loop dt execute img m a ns rcs fcs mid = Inr fvs'"
    by (auto simp: Let_def split: sum.splits)
  have fresh: "\<forall>fc\<in>set fcs. rc @ ''_'' @ fc \<notin> fst ` set fvs"
    using Cons.prems(4) by simp
  note row = feature_class_loop_result [OF inner Cons.prems(3) fresh]
  have mid: "mid = fvs @ ?row"
    using row by simp
  have d: "distinct (concat (map (\<lambda>rc. map (\<lambda>fc. rc @ ''_'' @ fc) fcs) rcs))"
    using Cons.prems(2) by simp
  have "fst ` set ?row = set (map (\<lambda>fc. rc @ ''_'' @ fc) fcs)"
    by (auto simp: image_iff)
  moreover have "\<forall>rc'\<in>set rcs. \<forall>fc\<in>set fcs.
      rc' @ ''_'' @ fc \<notin> set (map (\<lambda>fc. rc @ ''_'' @ fc) fcs)"
    using Cons.prems(2) by auto
  ultimately have fresh': "\<forall>rc'\<in>set rcs. \<forall>fc\<in>set fcs. rc' @ ''_'' @ fc \<notin> fst ` set mid"
    using Cons.prems(4) unfolding mid by (simp add: image_Un)
  note tail = Cons.IH [OF rest d Cons.prems(3) fresh']
  show ?case
    using row tail by (simp add: mid)
qed

lemma concat_map_product:
  "concat (map (\<lambda>x. map (f x) ys) xs) = map (\<lambda>(x, y). f x y) (List.product xs ys)"
  by (induction xs) simp_all

lemma keys_21:
  "map (\<lambda>(rc, fc). rc @ ''_'' @ fc) (List.product region_classes feature_classes) =
     [''wholeprostate_firstorder'', ''wholeprostate_shape'', ''wholeprostate_glcm'',
      ''wholeprostate_glrlm'', ''wholeprostate_glszm'', ''wholeprostate_ngtdm'',
      ''wholeprostate_gldm'',
      ''apex_firstorder'', ''apex_shape'', ''apex_glcm'', ''apex_glrlm'', ''apex_glszm'',
      ''apex_ngtdm'', ''apex_gldm'',
      ''base_firstorder'', ''base_shape'', ''base_glcm'', ''base_glrlm'', ''base_glszm'',
      ''base_ngtdm'', ''base_gldm'']"
  by (simp add: region_classes_def feature_classes_def)

lemma keys_distinct:
  "distinct (map (\<lambda>(rc, fc). rc @ ''_'' @ fc) (List.product region_classes feature_classes))"
  unfolding keys_21 by simp

lemma feature_classes_distinct: "distinct feature_classes"
  by (simp add: feature_classes_def)

text \<open>
  C3. When \<^verbatim>\<open>feature_extraction\<close> returns, the extracted dictionary holds the 21 keys
  of the three regions (outer) and the seven feature classes (inner) in that order, the
  whole region under the name \<open>wholeprostate\<close>; the vector under a key is what the
  extractor returned for that region's mask and that class, in the extractor's order of
  names; and the predictors are the values of these vectors, diagnostics left out, one
  vector after the other in key order. Flattening follows the key order of any
  dictionary it is given.
\<close>

theorem predictor_vector_order:
  assumes "feature_extraction dt execute img msk = Inr features_values"
    and "new_mask = (\<lambda>rc. region_mask (prepare_mask img msk)
           (binary_array (pixels (prepare_mask img msk)))
           (slice_indices_of rc
             (nonzero_slices_of (binary_array (pixels (prepare_mask img msk))))))"
  shows "(\<exists>fv_of.
      (\<forall>rc\<in>set region_classes. \<forall>fc\<in>set feature_classes. \<exists>stg raw.
          get_settings dt (pixels img) (pixels (new_mask rc)) 64 = Inr stg
          \<and> execute stg fc img (new_mask rc) = Inr raw
          \<and> convert_arrays raw = Inr (fv_of rc fc)
          \<and> map fst (fv_of rc fc) = map fst raw)
      \<and> extract_radiomics_features dt execute img msk region_classes feature_classes =
          Inr (map (\<lambda>(rc, fc). (rc @ ''_'' @ fc, fv_of rc fc))
                (List.product region_classes feature_classes))
      \<and> features_values =
          concat (map (\<lambda>(rc, fc). map snd (without_diagnostics (fv_of rc fc)))
                   (List.product region_classes feature_classes)))
    \<and> map (\<lambda>(rc, fc). rc @ ''_'' @ fc) (List.product region_classes feature_classes) =
     [''wholeprostate_firstorder'', ''wholeprostate_shape'', ''wholeprostate_glcm'',
      ''wholeprostate_glrlm'', ''wholeprostate_glszm'', ''wholeprostate_ngtdm'',
      ''wholeprostate_gldm'',
      ''apex_firstorder'', ''apex_shape'', ''apex_glcm'', ''apex_glrlm'', ''apex_glszm'',
      ''apex_ngtdm'', ''apex_gldm'',
      ''base_firstorder'', ''base_shape'', ''base_glcm'', ''base_glrlm'', ''base_glszm'',
      ''base_ngtdm'', ''base_gldm'']
    \<and> fst (extract_filtered_values extracted_features) =
        concat (map (\<lambda>(key, fv). map snd (without_diagnostics fv)) extracted_features)"
proof -
  let ?fv = "\<lambda>rc fc. projr (extract_features dt execute img (new_mask rc) fc)"
  let ?keyed = "map (\<lambda>(rc, fc). (rc @ ''_'' @ fc, ?fv rc fc))
                 (List.product region_classes feature_classes)"
  have flat: "fst (extract_filtered_values ef) =
        concat (map (\<lambda>(key, fv). map snd (without_diagnostics fv)) ef)" for ef
    by (simp add: extract_filtered_values_def comp_def case_prod_unfold)
  from assms(1) obtain extracted where
    run: "extract_radiomics_features dt execute img msk region_classes feature_classes = Inr extracted"
    and vals: "features_values = fst (extract_filtered_values extracted)"
    by (auto simp: feature_extraction_def split: sum.splits)
  have loop: "region_class_loop dt execute img (prepare_mask img msk)
      (binary_array (pixels (prepare_mask img msk)))
      (nonzero_slices_of (binary_array (pixels (prepare_mask img msk))))
      region_classes feature_classes [] = Inr extracted"
    using run by (simp add: extract_radiomics_features_def Let_def)
  have d: "distinct (concat (map (\<lambda>rc. map (\<lambda>fc. rc @ ''_'' @ fc) feature_classes) region_classes))"
    using keys_distinct by (simp add: concat_map_product)
  note res = region_class_loop_result [OF loop d feature_classes_distinct, simplified,
      folded assms(2) [THEN fun_cong]]
  have ok: "extract_features dt execute img (new_mask rc) fc = Inr (?fv rc fc)"
    if "rc \<in> set region_classes" "fc \<in> set feature_classes" for rc fc
    using res that unfolding assms(2) by blast
  have ext: "extracted = ?keyed"
    using res unfolding assms(2) by (simp add: concat_map_product)
  have 1: "\<forall>rc\<in>set region_classes. \<forall>fc\<in>set feature_classes. \<exists>stg raw.
          get_settings dt (pixels img) (pixels (new_mask rc)) 64 = Inr stg
          \<and> execute stg fc img (new_mask rc) = Inr raw
          \<and> convert_arrays raw = Inr (?fv rc fc)
          \<and> map fst (?fv rc fc) = map fst raw"
    using ok extract_features_order by blast
  have 3: "features_values =
          concat (map (\<lambda>(rc, fc). map snd (without_diagnostics (?fv rc fc)))
                   (List.product region_classes feature_classes))"
    unfolding vals flat ext by (simp add: comp_def case_prod_unfold)
  from 1 run [unfolded ext] 3 have "\<exists>fv_of.
      (\<forall>rc\<in>set region_classes. \<forall>fc\<in>set feature_classes. \<exists>stg raw.
          get_settings dt (pixels img) (pixels (new_mask rc)) 64 = Inr stg
          \<and> execute stg fc img (new_mask rc) = Inr raw
          \<and> convert_arrays raw = Inr (fv_of rc fc)
          \<and> map fst (fv_of rc fc) = map fst raw)
      \<and> extract_radiomics_features dt execute img msk region_classes feature_classes =
          Inr (map (\<lambda>(rc, fc). (rc @ ''_'' @ fc, fv_of rc fc))
                (List.product region_classes feature_classes))
      \<and> features_values =
          concat (map (\<lambda>(rc, fc). map snd (without_diagnostics (fv_of rc fc)))
                   (List.product region_classes feature_classes))"
    by (intro exI [of _ ?fv] conjI)
  with keys_21 flat show ?thesis by simp
qed

lemma ex_idx:
  "slice_indices_of ''wholeprostate'' [1, 2, 3, 5] = [1, 2, 3, 5]"
  "slice_indices_of ''apex'' [1, 2, 3, 5] = [1]"
  "slice_indices_of ''base'' [1, 2, 3, 5] = [5]"
  by (simp_all add: slice_indices_apex slice_indices_base slice_indices_whole)

lemma ex_masks:
  "pixels (region_mask (prepare_mask example_image example_mask) (pixels example_mask) [1, 2, 3, 5]) =
     [[[0, 0]], [[1, 1]], [[0, 1]], [[1, 1]], [[0, 0]], [[1, 1]]]"
  "pixels (region_mask (prepare_mask example_image example_mask) (pixels example_mask) [1]) =
     [[[0, 0]], [[1, 1]], [[0, 0]], [[0, 0]], [[0, 0]], [[0, 0]]]"
  "pixels (region_mask (prepare_mask example_image example_mask) (pixels example_mask) [5]) =
     [[[0, 0]], [[0, 0]], [[0, 0]], [[0, 0]], [[0, 0]], [[1, 1]]]"
  by (simp_all add: region_mask_pixels assign_slices_def zeros_like_def example_mask_def)

lemma ex_settings:
  "get_settings int16_arith (pixels example_image) [[[0, 0]], [[1, 1]], [[0, 1]], [[1, 1]], [[0, 0]], [[1, 1]]] 64
     = Inr \<lparr>binWidth = 68 / 64, correctMask = True\<rparr>"
  "get_settings int16_arith (pixels example_image) [[[0, 0]], [[1, 1]], [[0, 0]], [[0, 0]], [[0, 0]], [[0, 0]]] 64
     = Inr \<lparr>binWidth = 1 / 64, correctMask = True\<rparr>"
  "get_settings int16_arith (pixels example_image) [[[0, 0]], [[0, 0]], [[0, 0]], [[0, 0]], [[0, 0]], [[1, 1]]] 64
     = Inr \<lparr>binWidth = 2 / 64, correctMask = True\<rparr>"
  by (simp_all add: get_settings_def np_sum_def boolean_index_def same_shape_def flatten_def
      np_max_def np_min_def example_image_def int16_arith_def wrap_signed_def)

lemma ex_features:
  "extract_features int16_arith example_extractor example_image
     (region_mask (prepare_mask example_image example_mask) (pixels example_mask) [1, 2, 3, 5]) fc =
   Inr [(''diagnostics_Configuration_Settings'', PyOther ''binWidth''),
        (''original_'' @ fc @ ''_Range'', PyFloat 68),
        (''original_'' @ fc @ ''_NameLength'', PyFloat (real (length fc)))]"
  "extract_features int16_arith example_extractor example_image
     (region_mask (prepare_mask example_image example_mask) (pixels example_mask) [1]) fc =
   Inr [(''diagnostics_Configuration_Settings'', PyOther ''binWidth''),
        (''original_'' @ fc @ ''_Range'', PyFloat 1),
        (''original_'' @ fc @ ''_NameLength'', PyFloat (real (length fc)))]"
  "extract_features int16_arith example_extractor example_image
     (region_mask (prepare_mask example_image example_mask) (pixels example_mask) [5]) fc =
   Inr [(''diagnostics_Configuration_Settings'', PyOther ''binWidth''),
        (''original_'' @ fc @ ''_Range'', PyFloat 2),
        (''original_'' @ fc @ ''_NameLength'', PyFloat (real (length fc)))]"
  unfolding extract_features_def ex_masks ex_settings
  by (simp_all add: example_extractor_def to_float_def)

lemma ex_extraction: "feature_extraction int16_arith example_extractor example_image example_mask =
  Inr [PyFloat 68, PyFloat 10, PyFloat 68, PyFloat 5, PyFloat 68, PyFloat 4, PyFloat 68, PyFloat 5,
       PyFloat 68, PyFloat 5, PyFloat 68, PyFloat 5, PyFloat 68, PyFloat 4,
       PyFloat 1, PyFloat 10, PyFloat 1, PyFloat 5, PyFloat 1, PyFloat 4, PyFloat 1, PyFloat 5,
       PyFloat 1, PyFloat 5, PyFloat 1, PyFloat 5, PyFloat 1, PyFloat 4,
       PyFloat 2, PyFloat 10, PyFloat 2, PyFloat 5, PyFloat 2, PyFloat 4, PyFloat 2, PyFloat 5,
       PyFloat 2, PyFloat 5, PyFloat 2, PyFloat 5, PyFloat 2, PyFloat 4]"
  unfolding feature_extraction_def extract_radiomics_features_def Let_def ex_ns
  unfolding ex_array region_classes_def feature_classes_def
  by (simp add: ex_idx Let_def ex_features extract_filtered_values_def without_diagnostics_def
      del: One_nat_def)

theorem predictor_vector_order_witness:
  "feature_extraction int16_arith example_extractor example_image example_mask =
     Inr [PyFloat 68, PyFloat 10, PyFloat 68, PyFloat 5, PyFloat 68, PyFloat 4, PyFloat 68, PyFloat 5,
       PyFloat 68, PyFloat 5, PyFloat 68, PyFloat 5, PyFloat 68, PyFloat 4,
       PyFloat 1, PyFloat 10, PyFloat 1, PyFloat 5, PyFloat 1, PyFloat 4, PyFloat 1, PyFloat 5,
       PyFloat 1, PyFloat 5, PyFloat 1, PyFloat 5, PyFloat 1, PyFloat 4,
       PyFloat 2, PyFloat 10, PyFloat 2, PyFloat 5, PyFloat 2, PyFloat 4, PyFloat 2, PyFloat 5,
       PyFloat 2, PyFloat 5, PyFloat 2, PyFloat 5, PyFloat 2, PyFloat 4]
   \<and> map fst (projr (extract_radiomics_features int16_arith example_extractor example_image example_mask
        region_classes feature_classes)) =
     [''wholeprostate_firstorder'', ''wholeprostate_shape'', ''wholeprostate_glcm'',
      ''wholeprostate_glrlm'', ''wholeprostate_glszm'', ''wholeprostate_ngtdm'',
      ''wholeprostate_gldm'',
      ''apex_firstorder'', ''apex_shape'', ''apex_glcm'', ''apex_glrlm'', ''apex_glszm'',
      ''apex_ngtdm'', ''apex_gldm'',
      ''base_firstorder'', ''base_shape'', ''base_glcm'', ''base_glrlm'', ''base_glszm'',
      ''base_ngtdm'', ''base_gldm'']"
proof -
  from predictor_vector_order [OF ex_extraction refl] obtain fv_of where
    "extract_radiomics_features int16_arith example_extractor example_image example_mask
       region_classes feature_classes =
     Inr (map (\<lambda>(rc, fc). (rc @ ''_'' @ fc, fv_of rc fc))
           (List.product region_classes feature_classes))"
    by blast
  then have "map fst (projr (extract_radiomics_features int16_arith example_extractor example_image
        example_mask region_classes feature_classes)) =
     map (\<lambda>(rc, fc). rc @ ''_'' @ fc) (List.product region_classes feature_classes)"
    by (simp add: comp_def case_prod_unfold)
  with keys_21 ex_extraction show ?thesis by simp
qed

end
